theory Spec2Isabelle
  imports Complex_Main
begin

section \<open>JavaScript values\<close>

text \<open>
  The sound instance and the Flash loader are JavaScript: every field and every argument
  holds a dynamically typed value, and the setters of the class are reached with values of
  any type. The embedding therefore keeps the value universe explicit.

  A number is NaN, an infinity, negative zero or a finite value; a finite value is carried
  as a real, and \<open>Fin 0\<close> is positive zero. Comparison, \<open>Math.min\<close> and \<open>Math.max\<close> are
  exact on doubles. The results of \<open>*\<close>, \<open>/\<close> and \<open>-\<close> on finite operands are rounded
  by the runtime; that rounding is the host's \<open>fround\<close> below.
\<close>

datatype jsnum = NaN | NegInf | Fin real | NegZero | PosInf

text \<open>
  An object is a reference (its identity) together with its own enumerable properties;
  only plain objects are modelled (no user-defined \<open>valueOf\<close> or \<open>toString\<close>).
\<close>

datatype jsval =
    JUndefined
  | JNull
  | JBool bool
  | JNum jsnum
  | JStr string
  | JObj nat "(string \<times> jsval) list"

text \<open>
  What the code takes from its surroundings: the runtime's conversion of a string to
  a number (the StringNumericLiteral grammar of the language, not part of the repository),
  the runtime's rounding of an exact nonzero result to the double it returns (an infinity
  on overflow, a zero on underflow), \<open>createjs.definePropertySupported\<close>, and
  \<open>this._owner.isPreloadComplete\<close>.
\<close>

record host =
  stringToNumber :: "string \<Rightarrow> jsnum"
  fround :: "real \<Rightarrow> jsnum"
  definePropertySupported :: bool
  isPreloadComplete :: "string \<Rightarrow> bool"

fun to_boolean :: "jsval \<Rightarrow> bool" where
  "to_boolean JUndefined = False"
| "to_boolean JNull = False"
| "to_boolean (JBool b) = b"
| "to_boolean (JNum n) = (n \<noteq> NaN \<and> n \<noteq> Fin 0 \<and> n \<noteq> NegZero)"
| "to_boolean (JStr s) = (s \<noteq> [])"
| "to_boolean (JObj i ps) = True"

text \<open>ToNumber; a plain object converts through the string \<open>[object Object]\<close>, which is NaN.\<close>

fun to_number :: "host \<Rightarrow> jsval \<Rightarrow> jsnum" where
  "to_number h JUndefined = NaN"
| "to_number h JNull = Fin 0"
| "to_number h (JBool b) = Fin (if b then 1 else 0)"
| "to_number h (JNum n) = n"
| "to_number h (JStr s) = stringToNumber h s"
| "to_number h (JObj i ps) = NaN"

text \<open>\<open>x < y\<close> on numbers: false as soon as one side is NaN; the two zeros compare equal.\<close>

fun js_lt :: "jsnum \<Rightarrow> jsnum \<Rightarrow> bool" where
  "js_lt NaN y = False"
| "js_lt x NaN = False"
| "js_lt PosInf y = False"
| "js_lt x NegInf = False"
| "js_lt NegInf y = True"
| "js_lt x PosInf = True"
| "js_lt (Fin a) (Fin b) = (a < b)"
| "js_lt (Fin a) NegZero = (a < 0)"
| "js_lt NegZero (Fin b) = (0 < b)"
| "js_lt NegZero NegZero = False"

definition js_gt :: "jsnum \<Rightarrow> jsnum \<Rightarrow> bool" where
  "js_gt x y = js_lt y x"

text \<open>Equality of two numbers: NaN equals nothing, and negative zero equals positive zero.\<close>

fun zero_norm :: "jsnum \<Rightarrow> jsnum" where
  "zero_norm NegZero = Fin 0"
| "zero_norm n = n"

definition num_eq :: "jsnum \<Rightarrow> jsnum \<Rightarrow> bool" where
  "num_eq x y = (x \<noteq> NaN \<and> y \<noteq> NaN \<and> zero_norm x = zero_norm y)"

text \<open>
  \<open>Math.min\<close> and \<open>Math.max\<close> of two numbers: NaN if either is NaN, and negative zero
  counts as smaller than positive zero.
\<close>

definition math_min :: "jsnum \<Rightarrow> jsnum \<Rightarrow> jsnum" where
  "math_min x y =
     (if x = NaN \<or> y = NaN then NaN
      else if js_lt y x then y
      else if js_lt x y then x
      else if x = NegZero then x else y)"

definition math_max :: "jsnum \<Rightarrow> jsnum \<Rightarrow> jsnum" where
  "math_max x y =
     (if x = NaN \<or> y = NaN then NaN
      else if js_lt x y then y
      else if js_lt y x then x
      else if x = NegZero then y else x)"

text \<open>The sign and the kind of a number, and the value of a finite one.\<close>

fun is_neg :: "jsnum \<Rightarrow> bool" where
  "is_neg NegInf = True"
| "is_neg NegZero = True"
| "is_neg (Fin a) = (a < 0)"
| "is_neg n = False"

fun is_zero :: "jsnum \<Rightarrow> bool" where
  "is_zero NegZero = True"
| "is_zero (Fin a) = (a = 0)"
| "is_zero n = False"

fun is_inf :: "jsnum \<Rightarrow> bool" where
  "is_inf NegInf = True"
| "is_inf PosInf = True"
| "is_inf n = False"

fun fin_val :: "jsnum \<Rightarrow> real" where
  "fin_val (Fin a) = a"
| "fin_val n = 0"

definition signed_zero :: "bool \<Rightarrow> jsnum" where
  "signed_zero negative = (if negative then NegZero else Fin 0)"

definition signed_inf :: "bool \<Rightarrow> jsnum" where
  "signed_inf negative = (if negative then NegInf else PosInf)"

text \<open>
  \<open>x * y\<close>: NaN for a NaN operand and for an infinity times a zero; otherwise the sign is
  negative when exactly one operand is, an infinite operand gives an infinity, a zero
  operand a zero, and two finite nonzero operands the rounded product.
\<close>

definition js_mul :: "host \<Rightarrow> jsnum \<Rightarrow> jsnum \<Rightarrow> jsnum" where
  "js_mul h x y =
     (if x = NaN \<or> y = NaN then NaN
      else if (is_inf x \<and> is_zero y) \<or> (is_zero x \<and> is_inf y) then NaN
      else if is_inf x \<or> is_inf y then signed_inf (is_neg x \<noteq> is_neg y)
      else if is_zero x \<or> is_zero y then signed_zero (is_neg x \<noteq> is_neg y)
      else fround h (fin_val x * fin_val y))"

text \<open>
  \<open>x - y\<close>: NaN for a NaN operand and for an infinity minus itself; an infinite operand
  decides the result; two finite operands give the rounded difference, and an exact
  difference of zero is positive zero unless it is negative zero minus positive zero.
\<close>

definition js_sub :: "host \<Rightarrow> jsnum \<Rightarrow> jsnum \<Rightarrow> jsnum" where
  "js_sub h x y =
     (if x = NaN \<or> y = NaN then NaN
      else if is_inf x then (if is_inf y \<and> is_neg x = is_neg y then NaN else x)
      else if is_inf y then signed_inf (\<not> is_neg y)
      else if fin_val x - fin_val y \<noteq> 0 then fround h (fin_val x - fin_val y)
      else if x = NegZero \<and> y = Fin 0 then NegZero else Fin 0)"


text \<open>\<open>x == null\<close>.\<close>

definition is_nullish :: "jsval \<Rightarrow> bool" where
  "is_nullish v = (v = JUndefined \<or> v = JNull)"

text \<open>\<open>x === y\<close>: same type and same value; NaN differs from itself, objects compare by reference.\<close>

definition strict_eq :: "jsval \<Rightarrow> jsval \<Rightarrow> bool" where
  "strict_eq x y =
     (case (x, y) of
        (JNum a, JNum b) \<Rightarrow> num_eq a b
      | (JObj i ps, JObj j qs) \<Rightarrow> i = j
      | _ \<Rightarrow> x = y)"

definition strict_ne :: "jsval \<Rightarrow> jsval \<Rightarrow> bool" where
  "strict_ne x y = (\<not> strict_eq x y)"

text \<open>
  \<open>x == y\<close>, the abstract equality comparison: equal types compare strictly, null and
  undefined equal each other only, a boolean and a string convert to a number against a
  number, and a plain object converts to the string \<open>[object Object]\<close>.
\<close>

fun loose_eq :: "host \<Rightarrow> jsval \<Rightarrow> jsval \<Rightarrow> bool" where
  "loose_eq h JUndefined y = is_nullish y"
| "loose_eq h JNull y = is_nullish y"
| "loose_eq h (JNum a) y =
     (case y of
        JNum b \<Rightarrow> num_eq a b
      | JStr t \<Rightarrow> num_eq a (stringToNumber h t)
      | JBool b \<Rightarrow> num_eq a (to_number h (JBool b))
      | _ \<Rightarrow> False)"
| "loose_eq h (JStr s) y =
     (case y of
        JStr t \<Rightarrow> s = t
      | JNum b \<Rightarrow> num_eq (stringToNumber h s) b
      | JBool b \<Rightarrow> num_eq (stringToNumber h s) (to_number h (JBool b))
      | JObj j qs \<Rightarrow> s = ''[object Object]''
      | _ \<Rightarrow> False)"
| "loose_eq h (JBool a) y =
     (case y of
        JBool b \<Rightarrow> a = b
      | JNum b \<Rightarrow> num_eq (to_number h (JBool a)) b
      | JStr t \<Rightarrow> num_eq (to_number h (JBool a)) (stringToNumber h t)
      | _ \<Rightarrow> False)"
| "loose_eq h (JObj i ps) y =
     (case y of
        JObj j qs \<Rightarrow> i = j
      | JStr t \<Rightarrow> t = ''[object Object]''
      | _ \<Rightarrow> False)"

definition loose_ne :: "host \<Rightarrow> jsval \<Rightarrow> jsval \<Rightarrow> bool" where
  "loose_ne h x y = (\<not> loose_eq h x y)"


text \<open>\<open>value || d\<close>.\<close>

definition js_or :: "jsval \<Rightarrow> jsval \<Rightarrow> jsval" where
  "js_or v d = (if to_boolean v then v else d)"




section \<open>AbstractSoundInstance\<close>

text \<open>
  The repository holds the class in two revisions. The embedding follows the later one,
  the class with the \<open>position\<close>, \<open>muted\<close> and \<open>paused\<close> accessors and the
  \<open>setPaused\<close> and \<open>setMuted\<close> methods; the earlier one (DefaultSoundInstance.js) keeps
  the playhead in \<open>_offset\<close> and the flags in \<open>_pause\<close> and \<open>_mute\<close>, and has the same
  \<open>_beginPlaying\<close>, \<open>_handleSoundReady\<close>, \<open>_playFailed\<close> and \<open>_handleSoundComplete\<close>
  up to these names.

  A method is a function from the instance before the call to the instance after it;
  public methods also give what they return. Listeners, the Sound class and the back-end
  hooks are outside the class: a call to one of them is recorded in the instance's trace
  and has no other effect here.
\<close>

text \<open>
  Modelled from the spec: the play-state constants \<open>createjs.Sound.PLAY_SUCCEEDED\<close>,
  \<open>PLAY_INTERRUPTED\<close>, \<open>PLAY_FAILED\<close> and \<open>PLAY_FINISHED\<close> are defined by the Sound
  class, which the instance only reads; they are pairwise distinct values. The field
  \<open>playState\<close> is null (\<open>None\<close>) until the first transition.
\<close>

datatype play_state = PLAY_SUCCEEDED | PLAY_INTERRUPTED | PLAY_FAILED | PLAY_FINISHED

text \<open>The hooks of the class; each has an empty body that a back-end overrides.\<close>

datatype hook =
    UpdateVolume
  | UpdatePan
  | UpdateDuration
  | CalculateCurrentPosition
  | UpdatePosition
  | RemoveLooping jsval
  | AddLooping jsval
  | UpdatePaused jsval
  | HandleStop

text \<open>
  What an operation does outside the fields of the instance, in program order: an event
  dispatched to the listeners, \<open>clearTimeout\<close> on a timer handle, the two calls into the
  Sound class, and the hook calls.
\<close>

datatype effect =
    DispatchEvent string
  | ClearTimeout "nat option"
  | PlayFinished
  | PlayInstance jsval jsval jsval jsval jsval jsval
  | Hook hook

record sound_instance =
  src :: string
  uniqueId :: jsval
  playState :: "play_state option"
  delayTimeoutId :: "nat option"
  startTime :: jsval
  volume :: jsnum
  pan :: jsnum
  duration :: jsval
  position :: jsval
  loop :: jsval
  muted :: jsval
  paused :: jsval
  trace :: "effect list"

text \<open>What a public method returns: nothing, the instance itself, a boolean, a value.\<close>

datatype ret = RetUndefined | RetThis | RetBool bool | RetVal jsval

definition AbstractSoundInstance :: "string \<Rightarrow> jsval \<Rightarrow> jsval \<Rightarrow> sound_instance" where
  "AbstractSoundInstance source start dur =
     \<lparr> src = source,
       uniqueId = JNum (Fin (- 1)),
       playState = None,
       delayTimeoutId = None,
       startTime = js_or start (JNum (Fin 0)),
       volume = Fin 1,
       pan = Fin 0,
       duration = js_or dur (JNum (Fin 0)),
       position = JNum (Fin 0),
       loop = JNum (Fin 0),
       muted = JBool False,
       paused = JBool False,
       trace = [] \<rparr>"

definition emit :: "effect \<Rightarrow> sound_instance \<Rightarrow> sound_instance" where
  "emit e s = s\<lparr>trace := trace s @ [e]\<rparr>"

text \<open>The names of the events dispatched, in order.\<close>

fun events :: "effect list \<Rightarrow> string list" where
  "events [] = []"
| "events (DispatchEvent t # es) = t # events es"
| "events (e # es) = events es"

definition sendEvent :: "string \<Rightarrow> sound_instance \<Rightarrow> sound_instance" where
  "sendEvent type s = emit (DispatchEvent type) s"

definition cleanUp :: "sound_instance \<Rightarrow> sound_instance" where
  "cleanUp s = emit PlayFinished (emit (ClearTimeout (delayTimeoutId s)) s)"

text \<open>
  \<open>Math.max(lo, Math.min(hi, value))\<close>, the expression both volume and pan writers use;
  each argument of \<open>Math.min\<close> and \<open>Math.max\<close> is converted to a number first.
\<close>

definition clamp_js :: "host \<Rightarrow> real \<Rightarrow> real \<Rightarrow> jsval \<Rightarrow> jsnum" where
  "clamp_js h lo hi v = math_max (Fin lo) (math_min (Fin hi) (to_number h v))"

subsection \<open>The accessor properties defined by the constructor\<close>

text \<open>
  The setter of \<open>volume\<close> tests \<open>this._mute\<close>; the class keeps its flag in \<open>_muted\<close> and
  never writes \<open>_mute\<close>, so the test reads undefined.
\<close>

definition volume_set :: "host \<Rightarrow> jsval \<Rightarrow> sound_instance \<Rightarrow> sound_instance" where
  "volume_set h v s =
     (let s1 = s\<lparr>volume := clamp_js h 0 1 v\<rparr>
      in if to_boolean JUndefined then s1 else emit (Hook UpdateVolume) s1)"

definition pan_set :: "host \<Rightarrow> jsval \<Rightarrow> sound_instance \<Rightarrow> sound_instance" where
  "pan_set h v s = emit (Hook UpdatePan) (s\<lparr>pan := clamp_js h (- 1) 1 v\<rparr>)"

definition duration_set :: "jsval \<Rightarrow> sound_instance \<Rightarrow> sound_instance" where
  "duration_set v s = emit (Hook UpdateDuration) (s\<lparr>duration := js_or v (JNum (Fin 0))\<rparr>)"

definition position_set :: "jsval \<Rightarrow> sound_instance \<Rightarrow> sound_instance" where
  "position_set v s = emit (Hook UpdatePosition) (s\<lparr>position := js_or v (JNum (Fin 0))\<rparr>)"



definition muted_set :: "jsval \<Rightarrow> sound_instance \<Rightarrow> sound_instance" where
  "muted_set v s =
     (if strict_ne v (JBool True) \<or> strict_ne v (JBool False) then s
      else emit (Hook UpdateVolume) (s\<lparr>muted := v\<rparr>))"

definition paused_set :: "host \<Rightarrow> jsval \<Rightarrow> sound_instance \<Rightarrow> sound_instance" where
  "paused_set h v s =
     (if strict_ne v (JBool True) \<or> strict_ne v (JBool False) \<or> loose_eq h (paused s) v
      then s
      else if loose_eq h v (JBool True) \<and> playState s \<noteq> Some PLAY_SUCCEEDED then s
      else emit (ClearTimeout (delayTimeoutId s)) ((emit (Hook (UpdatePaused v)) s)\<lparr>paused := v\<rparr>))"

text \<open>
  An assignment \<open>this.volume = v\<close> or \<open>this.pan = v\<close> made by the class itself. It runs
  the accessor where the constructor could define one; elsewhere it creates a plain
  property that nothing in the class reads, and the fields stay as they are.
\<close>

definition assign_volume :: "host \<Rightarrow> jsval \<Rightarrow> sound_instance \<Rightarrow> sound_instance" where
  "assign_volume h v s = (if definePropertySupported h then volume_set h v s else s)"

definition assign_pan :: "host \<Rightarrow> jsval \<Rightarrow> sound_instance \<Rightarrow> sound_instance" where
  "assign_pan h v s = (if definePropertySupported h then pan_set h v s else s)"

subsection \<open>Public methods\<close>

definition getPaused :: "sound_instance \<Rightarrow> jsval" where
  "getPaused s = paused s"

definition setPaused :: "host \<Rightarrow> jsval \<Rightarrow> sound_instance \<Rightarrow> ret \<times> sound_instance" where
  "setPaused h v s =
     (if strict_ne v (JBool True) \<or> strict_ne v (JBool False) \<or> loose_eq h (paused s) v
      then (RetUndefined, s)
      else if loose_eq h v (JBool True) \<and> playState s \<noteq> Some PLAY_SUCCEEDED
      then (RetUndefined, s)
      else (RetThis,
            emit (ClearTimeout (delayTimeoutId s))
              ((emit (Hook (UpdatePaused v)) s)\<lparr>paused := v\<rparr>)))"

definition pause :: "host \<Rightarrow> sound_instance \<Rightarrow> ret \<times> sound_instance" where
  "pause h s =
     (if to_boolean (paused s) \<or> playState s \<noteq> Some PLAY_SUCCEEDED then (RetBool False, s)
      else (RetBool True, snd (setPaused h (JBool True) s)))"


definition stop :: "sound_instance \<Rightarrow> ret \<times> sound_instance" where
  "stop s =
     (let s1 = s\<lparr>position := JNum (Fin 0)\<rparr>;
          s2 = s1\<lparr>paused := JBool False\<rparr>;
          s3 = emit (Hook HandleStop) s2;
          s4 = cleanUp s3;
          s5 = s4\<lparr>playState := Some PLAY_FINISHED\<rparr>
      in (RetThis, s5))"

definition setVolume :: "host \<Rightarrow> jsval \<Rightarrow> sound_instance \<Rightarrow> ret \<times> sound_instance" where
  "setVolume h v s =
     (let s1 = s\<lparr>volume := clamp_js h 0 1 v\<rparr>
      in (RetThis, if \<not> to_boolean (muted s1) then emit (Hook UpdateVolume) s1 else s1))"

definition getVolume :: "sound_instance \<Rightarrow> jsnum" where
  "getVolume s = volume s"

definition setMute :: "jsval \<Rightarrow> sound_instance \<Rightarrow> ret \<times> sound_instance" where
  "setMute v s =
     (if is_nullish v then (RetBool False, s)
      else (RetBool True, emit (Hook UpdateVolume) (s\<lparr>muted := v\<rparr>)))"

definition getMute :: "sound_instance \<Rightarrow> jsval" where
  "getMute s = muted s"

definition setMuted :: "jsval \<Rightarrow> sound_instance \<Rightarrow> ret \<times> sound_instance" where
  "setMuted v s =
     (if strict_ne v (JBool True) \<or> strict_ne v (JBool False) then (RetUndefined, s)
      else (RetThis, emit (Hook UpdateVolume) (s\<lparr>muted := v\<rparr>)))"

definition getMuted :: "sound_instance \<Rightarrow> jsval" where
  "getMuted s = muted s"

definition setPan :: "host \<Rightarrow> jsval \<Rightarrow> sound_instance \<Rightarrow> ret \<times> sound_instance" where
  "setPan h v s = (RetThis, emit (Hook UpdatePan) (s\<lparr>pan := clamp_js h (- 1) 1 v\<rparr>))"

definition getPan :: "sound_instance \<Rightarrow> jsnum" where
  "getPan s = pan s"

definition getPosition :: "sound_instance \<Rightarrow> ret \<times> sound_instance" where
  "getPosition s =
     (let s1 = (if \<not> to_boolean (paused s) \<and> playState s = Some PLAY_SUCCEEDED
                then emit (Hook CalculateCurrentPosition) s else s)
      in (RetVal (position s1), s1))"

definition setPosition :: "jsval \<Rightarrow> sound_instance \<Rightarrow> ret \<times> sound_instance" where
  "setPosition v s =
     (RetThis, emit (Hook UpdatePosition) (s\<lparr>position := js_or v (JNum (Fin 0))\<rparr>))"

definition getDuration :: "sound_instance \<Rightarrow> jsval" where
  "getDuration s = duration s"

definition setDuration :: "jsval \<Rightarrow> sound_instance \<Rightarrow> ret \<times> sound_instance" where
  "setDuration v s =
     (RetThis, emit (Hook UpdateDuration) (s\<lparr>duration := js_or v (JNum (Fin 0))\<rparr>))"

definition getLoop :: "sound_instance \<Rightarrow> jsval" where
  "getLoop s = loop s"



subsection \<open>Private methods\<close>


definition playFailed :: "sound_instance \<Rightarrow> sound_instance" where
  "playFailed s = sendEvent ''failed'' ((cleanUp s)\<lparr>playState := Some PLAY_FAILED\<rparr>)"

definition handleSoundReady :: "host \<Rightarrow> sound_instance \<Rightarrow> sound_instance" where
  "handleSoundReady h s =
     (if js_gt (js_mul h (to_number h (position s)) (Fin 1000)) (to_number h (duration s))
      then playFailed s
      else
        (let s1 = (if js_lt (to_number h (position s)) (Fin 0)
                   then s\<lparr>position := JNum (Fin 0)\<rparr> else s)
         in s1\<lparr>playState := Some PLAY_SUCCEEDED, paused := JBool False\<rparr>))"

definition beginPlaying ::
  "host \<Rightarrow> jsval \<Rightarrow> jsval \<Rightarrow> jsval \<Rightarrow> jsval \<Rightarrow> sound_instance \<Rightarrow> sound_instance"
where
  "beginPlaying h offset lp vol pn s =
     (let s1 = s\<lparr>position := offset\<rparr>;
          s2 = s1\<lparr>loop := lp\<rparr>;
          s3 = assign_volume h vol s2;
          s4 = assign_pan h pn s3
      in if isPreloadComplete h (src s4)
         then sendEvent ''succeeded'' (handleSoundReady h s4)
         else playFailed s4)"

definition handleSoundComplete :: "host \<Rightarrow> sound_instance \<Rightarrow> sound_instance" where
  "handleSoundComplete h s =
     (let s1 = s\<lparr>position := JNum (Fin 0)\<rparr>
      in if loose_ne h (loop s1) (JNum (Fin 0))
         then sendEvent ''loop'' (s1\<lparr>loop := JNum (js_sub h (to_number h (loop s1)) (Fin 1))\<rparr>)
         else sendEvent ''complete'' ((cleanUp s1)\<lparr>playState := Some PLAY_FINISHED\<rparr>))"


subsection \<open>The frame of a live update\<close>



subsection \<open>The states an instance can be in\<close>






section \<open>FlashAudioLoader\<close>

text \<open>
  The class keeps two static fields: \<open>Loader._flash\<close>, null until the Flash engine is
  handed over, and \<open>Loader._preloadInstances\<close>, the array of loaders whose \<open>load\<close> came
  too early. A loader object is a reference. The calls that leave the file are recorded in
  order: the inherited \<open>AbstractSoundLoader_load(src)\<close>, the engine's
  \<open>preload(this.src)\<close> (its result is stored in \<open>this.flashId\<close>) and the plugin's
  \<open>registerPreloadInstance(this.flashId, this)\<close>.
\<close>

datatype loader_effect =
    SuperLoad nat jsval
  | FlashPreload nat
  | RegisterPreloadInstance nat

datatype js_error = TypeError

record loader_class =
  flash :: "nat option"
  preloadInstances :: "nat list"
  calls :: "loader_effect list"

text \<open>
  \<open>load\<close> reaches the engine through \<open>this._flash\<close>, a property of the loader object
  that this file never writes (the static field is \<open>Loader._flash\<close>); what that read
  yields for a loader is a parameter, and a call on undefined raises.
\<close>

definition load ::
  "(nat \<Rightarrow> nat option) \<Rightarrow> nat \<Rightarrow> jsval \<Rightarrow> loader_class \<Rightarrow> js_error + loader_class"
where
  "load this_flash this source w =
     (let w1 = w\<lparr>calls := calls w @ [SuperLoad this source]\<rparr>
      in if flash w1 = None
         then Inr (w1\<lparr>preloadInstances := preloadInstances w1 @ [this]\<rparr>)
         else (case this_flash this of
                 None \<Rightarrow> Inl TypeError
               | Some engine \<Rightarrow>
                   Inr (w1\<lparr>calls := calls w1 @ [FlashPreload this, RegisterPreloadInstance this]\<rparr>)))"

text \<open>A run of early loads, one per loader of the list, in order.\<close>

fun loads :: "(nat \<Rightarrow> nat option) \<Rightarrow> (nat \<times> jsval) list \<Rightarrow> loader_class \<Rightarrow> js_error + loader_class"
where
  "loads f [] w = Inr w"
| "loads f ((l, source) # rest) w =
     (case load f l source w of Inl e \<Rightarrow> Inl e | Inr w' \<Rightarrow> loads f rest w')"

text \<open>\<open>Array.prototype.pop\<close>: the last element, or undefined on an empty array.\<close>

fun array_pop :: "'a list \<Rightarrow> 'a option \<times> 'a list" where
  "array_pop [] = (None, [])"
| "array_pop xs = (Some (last xs), butlast xs)"

text \<open>
  The loop of \<open>setFlash\<close> starts its counter from the array itself,
  \<open>var i = s._preloadInstances\<close>, and tests \<open>i--\<close>. The first test converts the array to
  a number: an array converts through \<open>join\<close>, so the empty array is the empty string and
  0, and an array of loaders is \<open>[FlashAudioLoader]\<close>, repeated with commas, which is no
  numeral and converts to NaN.
\<close>

definition array_to_number :: "nat list \<Rightarrow> jsnum" where
  "array_to_number q = (if q = [] then Fin 0 else NaN)"

text \<open>
  One test of \<open>i--\<close> and, when the old value is truthy, one pass of the body with the
  counter decremented. A counter that never becomes falsy keeps the loop running: the
  result \<open>None\<close> stands for that.
\<close>

partial_function (option) setFlash_loop ::
  "host \<Rightarrow> (nat \<Rightarrow> nat option) \<Rightarrow> jsnum \<Rightarrow> loader_class \<Rightarrow> (js_error + loader_class) option"
where
  "setFlash_loop h this_flash i w =
     (if to_boolean (JNum i) then
        (case array_pop (preloadInstances w) of
           (None, rest) \<Rightarrow> Some (Inl TypeError)
         | (Some loader, rest) \<Rightarrow>
             (case load this_flash loader JUndefined (w\<lparr>preloadInstances := rest\<rparr>) of
                Inl e \<Rightarrow> Some (Inl e)
              | Inr w' \<Rightarrow> setFlash_loop h this_flash (js_sub h i (Fin 1)) w'))
      else Some (Inr w))"

definition setFlash ::
  "host \<Rightarrow> (nat \<Rightarrow> nat option) \<Rightarrow> nat option \<Rightarrow> loader_class \<Rightarrow> (js_error + loader_class) option"
where
  "setFlash h this_flash fl w =
     (let w1 = w\<lparr>flash := fl\<rparr>
      in setFlash_loop h this_flash (array_to_number (preloadInstances w1)) w1)"

text \<open>
  The fields of one loader that \<open>handleProgress\<close> touches: the public \<open>progress\<close>, and
  the argument objects \<open>{loaded, total}\<close> handed to the inherited handler.
\<close>

record loader =
  progress :: jsval
  progress_events :: "(jsval \<times> jsval) list"




section \<open>Ranges, and the inputs of the concrete runs\<close>

text \<open>A number lies in the closed interval from \<open>lo\<close> to \<open>hi\<close>; NaN and the infinities do not.\<close>

definition in_range :: "real \<Rightarrow> real \<Rightarrow> jsnum \<Rightarrow> bool" where
  "in_range lo hi n =
     (case n of
        Fin x \<Rightarrow> lo \<le> x \<and> x \<le> hi
      | NegZero \<Rightarrow> lo \<le> 0 \<and> 0 \<le> hi
      | _ \<Rightarrow> False)"

text \<open>
  Two facts of double arithmetic that the countdown of the loop counter rests on: an
  integer of magnitude up to \<open>2^53\<close> is a double, so a result that is such an integer
  is returned as it is; and a result at or below -1 is returned as a double at or below
  -1, or as negative infinity.
\<close>

definition exact_on_safe_integers :: "host \<Rightarrow> bool" where
  "exact_on_safe_integers h =
     (\<forall>z::int. z \<noteq> 0 \<and> \<bar>z\<bar> \<le> 2 ^ 53 \<longrightarrow> fround h (of_int z) = Fin (of_int z))"

definition rounds_below_minus_one :: "host \<Rightarrow> bool" where
  "rounds_below_minus_one h =
     (\<forall>x. x \<le> - 1 \<longrightarrow> fround h x = NegInf \<or> (\<exists>y. y \<le> - 1 \<and> fround h x = Fin y))"

text \<open>A counter below zero: negative infinity or a negative finite value.\<close>

definition negative_counter :: "jsnum \<Rightarrow> bool" where
  "negative_counter n = (n = NegInf \<or> (\<exists>y. y < 0 \<and> n = Fin y))"

fun is_boolean :: "jsval \<Rightarrow> bool" where
  "is_boolean (JBool b) = True"
| "is_boolean v = False"

text \<open>
  A host for the concrete runs: accessor properties are supported, the Sound class
  answers \<open>isPreloadComplete\<close> with \<open>ready\<close> for every source, and the only string any
  run could convert is the empty one. Its arithmetic returns the exact result; the runs
  compute small integers and quarters only, which doubles hold exactly.
\<close>

definition test_host :: "bool \<Rightarrow> host" where
  "test_host ready =
     \<lparr> stringToNumber = (\<lambda>s. if s = [] then Fin 0 else NaN),
       fround = Fin,
       definePropertySupported = True,
       isPreloadComplete = (\<lambda>source. ready) \<rparr>"

text \<open>A new instance for a clip of 1000 ms, and the same instance while it plays.\<close>

definition fresh :: sound_instance where
  "fresh = AbstractSoundInstance ''a.mp3'' JUndefined (JNum (Fin 1000))"

definition playing :: sound_instance where
  "playing = fresh\<lparr>playState := Some PLAY_SUCCEEDED\<rparr>"

text \<open>The loader class before the engine arrives, and a loader that has reported nothing yet.\<close>

definition no_flash :: loader_class where
  "no_flash = \<lparr> flash = None, preloadInstances = [], calls = [] \<rparr>"


section \<open>Properties of the sound instance\<close>

subsection \<open>Auxiliary facts\<close>

lemma events_append: "events (xs @ ys) = events xs @ events ys"
  by (induction xs rule: events.induct) simp_all

lemma events_replicate: "events (replicate n (DispatchEvent t)) = replicate n t"
  by (induction n) simp_all

text \<open>
  No value is both \<open>true\<close> and \<open>false\<close>, so the guard
  \<open>value !== true || value !== false\<close> holds for every value.
\<close>

lemma strict_ne_true_or_false: "strict_ne v (JBool True) \<or> strict_ne v (JBool False)"
  by (cases v) (auto simp: strict_ne_def strict_eq_def)

lemma setPaused_ignores: "setPaused h v s = (RetUndefined, s)"
  using strict_ne_true_or_false [of v] by (auto simp: setPaused_def)

lemma paused_set_ignores: "paused_set h v s = s"
  using strict_ne_true_or_false [of v] by (auto simp: paused_set_def)

lemma setMuted_ignores: "setMuted v s = (RetUndefined, s)"
  using strict_ne_true_or_false [of v] by (auto simp: setMuted_def)

lemma muted_set_ignores: "muted_set v s = s"
  using strict_ne_true_or_false [of v] by (auto simp: muted_set_def)

lemma clamp_js_Fin:
  "lo \<le> hi \<Longrightarrow> to_number h v = Fin x \<Longrightarrow> clamp_js h lo hi v = Fin (max lo (min hi x))"
  by (auto simp: clamp_js_def math_max_def math_min_def max_def min_def)

lemma clamp_js_PosInf: "lo \<le> hi \<Longrightarrow> to_number h v = PosInf \<Longrightarrow> clamp_js h lo hi v = Fin hi"
  by (auto simp: clamp_js_def math_max_def math_min_def)

lemma clamp_js_NegInf: "lo \<le> hi \<Longrightarrow> to_number h v = NegInf \<Longrightarrow> clamp_js h lo hi v = Fin lo"
  by (auto simp: clamp_js_def math_max_def math_min_def)

lemma clamp_js_NaN: "to_number h v = NaN \<Longrightarrow> clamp_js h lo hi v = NaN"
  by (auto simp: clamp_js_def math_max_def math_min_def)

lemma clamp_js_NegZero:
  "lo \<le> hi \<Longrightarrow> to_number h v = NegZero \<Longrightarrow> in_range lo hi (clamp_js h lo hi v)"
  by (auto simp: clamp_js_def math_max_def math_min_def in_range_def)

lemma clamp_js_in_range:
  assumes "lo \<le> hi" and "to_number h v \<noteq> NaN"
  shows "in_range lo hi (clamp_js h lo hi v)"
proof (cases "to_number h v")
  case (Fin x)
  then show ?thesis using assms by (simp add: clamp_js_Fin in_range_def)
next
  case NegZero
  then show ?thesis using assms by (simp add: clamp_js_NegZero)
next
  case NegInf
  then show ?thesis using assms by (simp add: clamp_js_NegInf in_range_def)
next
  case PosInf
  then show ?thesis using assms by (simp add: clamp_js_PosInf in_range_def)
next
  case NaN
  then show ?thesis using assms by simp
qed

lemma volume_setVolume: "volume (snd (setVolume h v s)) = clamp_js h 0 1 v"
  by (simp add: setVolume_def Let_def emit_def)

lemma volume_volume_set: "volume (volume_set h v s) = clamp_js h 0 1 v"
  by (simp add: volume_set_def Let_def emit_def)

lemma pan_setPan: "pan (snd (setPan h v s)) = clamp_js h (- 1) 1 v"
  by (simp add: setPan_def emit_def)

lemma pan_pan_set: "pan (pan_set h v s) = clamp_js h (- 1) 1 v"
  by (simp add: pan_set_def emit_def)

lemma js_or_falsy: "\<not> to_boolean v \<Longrightarrow> js_or v d = d"
  by (simp add: js_or_def)

lemma js_or_zero_defined:
  "js_or v (JNum (Fin 0)) \<noteq> JNum NaN \<and> js_or v (JNum (Fin 0)) \<noteq> JNull
   \<and> js_or v (JNum (Fin 0)) \<noteq> JUndefined"
  by (cases v) (auto simp: js_or_def)

subsection \<open>Starting playback\<close>

text \<open>
  The three outcomes of \<open>_beginPlaying\<close>. The offset is beyond the clip when
  \<open>offset * 1000 > duration\<close>, the comparison \<open>_handleSoundReady\<close> makes.
\<close>

lemma beginPlaying_fields:
  "src (assign_pan h pn (assign_volume h vol s)) = src s
   \<and> duration (assign_pan h pn (assign_volume h vol s)) = duration s
   \<and> position (assign_pan h pn (assign_volume h vol s)) = position s
   \<and> delayTimeoutId (assign_pan h pn (assign_volume h vol s)) = delayTimeoutId s
   \<and> events (trace (assign_pan h pn (assign_volume h vol s))) = events (trace s)"
  by (simp add: assign_pan_def assign_volume_def pan_set_def volume_set_def emit_def
      Let_def events_append)

lemma beginPlaying_not_ready:
  assumes "\<not> isPreloadComplete h (src s)"
  shows "playState (beginPlaying h off lp vol pn s) = Some PLAY_FAILED
         \<and> events (trace (beginPlaying h off lp vol pn s)) = events (trace s) @ [''failed'']"
  using assms beginPlaying_fields [of h pn vol "s\<lparr>position := off, loop := lp\<rparr>"]
  by (simp add: beginPlaying_def Let_def playFailed_def cleanUp_def sendEvent_def emit_def
      events_append)

lemma beginPlaying_ready_in_range:
  assumes "isPreloadComplete h (src s)"
    and "\<not> js_gt (js_mul h (to_number h off) (Fin 1000)) (to_number h (duration s))"
  shows "playState (beginPlaying h off lp vol pn s) = Some PLAY_SUCCEEDED
         \<and> paused (beginPlaying h off lp vol pn s) = JBool False
         \<and> position (beginPlaying h off lp vol pn s) =
             (if js_lt (to_number h off) (Fin 0) then JNum (Fin 0) else off)
         \<and> events (trace (beginPlaying h off lp vol pn s)) = events (trace s) @ [''succeeded'']"
  using assms beginPlaying_fields [of h pn vol "s\<lparr>position := off, loop := lp\<rparr>"]
  by (simp add: beginPlaying_def Let_def handleSoundReady_def sendEvent_def emit_def
      events_append)

lemma beginPlaying_ready_beyond:
  assumes "isPreloadComplete h (src s)"
    and "js_gt (js_mul h (to_number h off) (Fin 1000)) (to_number h (duration s))"
  shows "playState (beginPlaying h off lp vol pn s) = Some PLAY_FAILED
         \<and> events (trace (beginPlaying h off lp vol pn s)) =
             events (trace s) @ [''failed'', ''succeeded'']"
  using assms beginPlaying_fields [of h pn vol "s\<lparr>position := off, loop := lp\<rparr>"]
  by (simp add: beginPlaying_def Let_def handleSoundReady_def playFailed_def cleanUp_def
      sendEvent_def emit_def events_append)

text \<open>
  C1. The resource is ready, the clip lasts 1000 ms and the offset is 2, so
  \<open>2 * 1000 > 1000\<close>: \<open>_handleSoundReady\<close> fails the attempt and returns, and
  \<open>_beginPlaying\<close> goes on to dispatch "succeeded". The instance ends FAILED with the
  events "failed" and then "succeeded".
\<close>

theorem beginPlaying_beyond_duration_run:
  "playState (beginPlaying (test_host True) (JNum (Fin 2)) (JNum (Fin 0)) (JNum (Fin 1))
       (JNum (Fin 0)) fresh) = Some PLAY_FAILED
   \<and> events (trace (beginPlaying (test_host True) (JNum (Fin 2)) (JNum (Fin 0)) (JNum (Fin 1))
       (JNum (Fin 0)) fresh)) = [''failed'', ''succeeded'']"
  by (simp add: beginPlaying_def test_host_def fresh_def AbstractSoundInstance_def
      assign_volume_def assign_pan_def volume_set_def pan_set_def emit_def
      handleSoundReady_def playFailed_def cleanUp_def sendEvent_def js_gt_def js_mul_def
      js_or_def clamp_js_def)

subsection \<open>Pausing\<close>

lemma pause_not_playing:
  "playState s \<noteq> Some PLAY_SUCCEEDED \<Longrightarrow> pause h s = (RetBool False, s)"
  by (simp add: pause_def)

lemma pause_changes_nothing: "snd (pause h s) = s"
  by (simp add: pause_def setPaused_ignores)

lemma pause_while_playing:
  "playState s = Some PLAY_SUCCEEDED \<Longrightarrow> \<not> to_boolean (paused s) \<Longrightarrow>
   pause h s = (RetBool True, s)"
  by (simp add: pause_def setPaused_ignores)

text \<open>
  C3. On a playing, unpaused instance with a delay timer pending, \<open>pause()\<close> answers
  true, and so does nothing else: \<open>setPaused(true)\<close> leaves at its first guard, the
  paused flag stays false and \<open>clearTimeout\<close> is never called. Setting the property
  or calling \<open>setPaused(true)\<close> directly ends the same way.
\<close>

theorem pause_while_playing_run:
  "pause (test_host True) (playing\<lparr>delayTimeoutId := Some 7\<rparr>) =
     (RetBool True, playing\<lparr>delayTimeoutId := Some 7\<rparr>)
   \<and> setPaused (test_host True) (JBool True) (playing\<lparr>delayTimeoutId := Some 7\<rparr>) =
     (RetUndefined, playing\<lparr>delayTimeoutId := Some 7\<rparr>)
   \<and> paused_set (test_host True) (JBool True) (playing\<lparr>delayTimeoutId := Some 7\<rparr>) =
     playing\<lparr>delayTimeoutId := Some 7\<rparr>
   \<and> paused (playing\<lparr>delayTimeoutId := Some 7\<rparr>) = JBool False
   \<and> trace (playing\<lparr>delayTimeoutId := Some 7\<rparr>) = []"
  by (simp add: pause_def setPaused_def paused_set_def strict_ne_def strict_eq_def
      playing_def fresh_def AbstractSoundInstance_def)

subsection \<open>Natural completion\<close>

lemma num_eq_zero: "num_eq n (Fin 0) = (n = Fin 0 \<or> n = NegZero)"
  by (cases n) (auto simp: num_eq_def)

lemma handleSoundComplete_nonzero:
  "loop s = JNum n \<Longrightarrow> \<not> num_eq n (Fin 0) \<Longrightarrow>
   handleSoundComplete h s =
     s\<lparr>position := JNum (Fin 0), loop := JNum (js_sub h n (Fin 1)),
       trace := trace s @ [DispatchEvent ''loop'']\<rparr>"
  by (simp add: handleSoundComplete_def Let_def loose_ne_def sendEvent_def emit_def)

lemma handleSoundComplete_zero:
  "loop s = JNum (Fin 0) \<Longrightarrow>
   handleSoundComplete h s =
     s\<lparr>position := JNum (Fin 0), playState := Some PLAY_FINISHED,
       trace := trace s @ [ClearTimeout (delayTimeoutId s), PlayFinished,
                           DispatchEvent ''complete'']\<rparr>"
  by (simp add: handleSoundComplete_def Let_def loose_ne_def num_eq_def sendEvent_def emit_def
      cleanUp_def)

text \<open>Decrementing an integer counter whose predecessor is still a safe integer is exact.\<close>

lemma js_sub_safe_integer:
  assumes "exact_on_safe_integers h" and "- (2 ^ 53) < z" and "z \<le> 2 ^ 53"
  shows "js_sub h (Fin (of_int z)) (Fin 1) = Fin (of_int z - 1)"
proof (cases "z = 1")
  case True
  then show ?thesis by (simp add: js_sub_def)
next
  case False
  have "z - 1 \<noteq> 0 \<and> \<bar>z - 1\<bar> \<le> 2 ^ 53" using assms(2,3) False by simp
  with assms(1) have "fround h (of_int (z - 1)) = Fin (of_int (z - 1))"
    unfolding exact_on_safe_integers_def by blast
  moreover have "(of_int z :: real) - 1 \<noteq> 0" using False by simp
  ultimately show ?thesis by (simp add: js_sub_def)
qed

text \<open>Decrementing a counter below zero leaves it below zero.\<close>

lemma negative_counter_nonzero: "negative_counter n \<Longrightarrow> \<not> num_eq n (Fin 0)"
  by (auto simp: negative_counter_def num_eq_zero)

lemma js_sub_negative:
  assumes "rounds_below_minus_one h" and "negative_counter n"
  shows "negative_counter (js_sub h n (Fin 1))"
proof (cases "n = NegInf")
  case True
  then show ?thesis by (simp add: js_sub_def negative_counter_def)
next
  case False
  with assms(2) obtain y where y: "y < 0" "n = Fin y" by (auto simp: negative_counter_def)
  have "y - 1 \<le> - 1" using y(1) by simp
  with assms(1) have "fround h (y - 1) = NegInf \<or> (\<exists>y'. y' \<le> - 1 \<and> fround h (y - 1) = Fin y')"
    unfolding rounds_below_minus_one_def by blast
  moreover have "js_sub h n (Fin 1) = fround h (y - 1)" using y by (simp add: js_sub_def)
  ultimately show ?thesis by (auto simp: negative_counter_def)
qed

lemma handleSoundComplete_negative:
  assumes "rounds_below_minus_one h" and "negative_counter n" and "loop s = JNum n"
  shows "\<exists>n'. negative_counter n'
           \<and> (handleSoundComplete h ^^ m) s =
               s\<lparr>position := (if m = 0 then position s else JNum (Fin 0)), loop := JNum n',
                 trace := trace s @ replicate m (DispatchEvent ''loop'')\<rparr>"
proof (induction m)
  case 0
  have "s = s\<lparr>position := position s, loop := JNum n, trace := trace s\<rparr>"
    using assms(3) by simp
  with assms(2) show ?case by auto
next
  case (Suc m)
  then obtain n' where n': "negative_counter n'"
    and before: "(handleSoundComplete h ^^ m) s =
               s\<lparr>position := (if m = 0 then position s else JNum (Fin 0)), loop := JNum n',
                 trace := trace s @ replicate m (DispatchEvent ''loop'')\<rparr>"
    by blast
  let ?sm = "s\<lparr>position := (if m = 0 then position s else JNum (Fin 0)), loop := JNum n',
                 trace := trace s @ replicate m (DispatchEvent ''loop'')\<rparr>"
  have step: "handleSoundComplete h ?sm =
      ?sm\<lparr>position := JNum (Fin 0), loop := JNum (js_sub h n' (Fin 1)),
           trace := trace ?sm @ [DispatchEvent ''loop'']\<rparr>"
    by (rule handleSoundComplete_nonzero) (simp_all add: negative_counter_nonzero [OF n'])
  have "(handleSoundComplete h ^^ Suc m) s =
      s\<lparr>position := (if Suc m = 0 then position s else JNum (Fin 0)),
        loop := JNum (js_sub h n' (Fin 1)),
        trace := trace s @ replicate (Suc m) (DispatchEvent ''loop'')\<rparr>"
    by (simp add: before step replicate_append_same)
  with js_sub_negative [OF assms(1) n'] show ?case by blast
qed

lemma handleSoundComplete_negative_integer:
  assumes "exact_on_safe_integers h" and "z < 0" and "loop s = JNum (Fin (of_int z))"
  shows "- (2 ^ 53) \<le> z - int m \<Longrightarrow>
         (handleSoundComplete h ^^ m) s =
           s\<lparr>position := (if m = 0 then position s else JNum (Fin 0)),
             loop := JNum (Fin (of_int z - real m)),
             trace := trace s @ replicate m (DispatchEvent ''loop'')\<rparr>"
proof (induction m)
  case 0
  have "s = s\<lparr>position := position s, loop := JNum (Fin (of_int z)), trace := trace s\<rparr>"
    using assms(3) by simp
  then show ?case by simp
next
  case (Suc m)
  let ?r = "real_of_int z - real m"
  let ?sm = "s\<lparr>position := (if m = 0 then position s else JNum (Fin 0)),
               loop := JNum (Fin ?r),
               trace := trace s @ replicate m (DispatchEvent ''loop'')\<rparr>"
  have before: "(handleSoundComplete h ^^ m) s = ?sm" using Suc by simp
  have range: "- (2 ^ 53) < z - int m" "z - int m \<le> 2 ^ 53" "z - int m \<noteq> 0"
    using Suc.prems assms(2) by simp_all
  have r: "?r = of_int (z - int m)" by simp
  have "?r \<noteq> 0" unfolding r using range(3) by (simp only: of_int_eq_0_iff not_False_eq_True)
  then have nz: "\<not> num_eq (Fin ?r) (Fin 0)" by (simp add: num_eq_zero)
  have lp: "loop ?sm = JNum (Fin ?r)" by simp
  have step: "handleSoundComplete h ?sm =
      ?sm\<lparr>position := JNum (Fin 0), loop := JNum (js_sub h (Fin ?r) (Fin 1)),
           trace := trace ?sm @ [DispatchEvent ''loop'']\<rparr>"
    by (rule handleSoundComplete_nonzero [OF lp nz])
  have dec: "js_sub h (Fin ?r) (Fin 1) = Fin (?r - 1)"
    unfolding r by (rule js_sub_safe_integer [OF assms(1) range(1) range(2)])
  show ?case
    by (simp add: before step dec replicate_append_same algebra_simps)
qed

text \<open>
  C4. A completion with a nonzero counter resets the position to 0, dispatches exactly
  one "loop" event and does nothing else, so the play state is the one before (SUCCEEDED
  while playing), and the counter becomes what the runtime's subtraction of 1 gives: for
  an integer counter whose predecessor is within 2^53 in magnitude, exactly the
  predecessor. With the counter at 0 the instance becomes FINISHED and dispatches
  "complete". From a counter of 2 on a playing instance, three completions give "loop"
  with counter 1, "loop" with counter 0, and "complete" with FINISHED. From a counter
  below zero every number of completions dispatches only "loop" events, keeps the play
  state and leaves the counter below zero; an integer counter goes down by one each time
  as long as it stays within 2^53.
\<close>

theorem handleSoundComplete_loop_countdown:
  "(loop s = JNum n \<and> \<not> num_eq n (Fin 0) \<longrightarrow>
      loop (handleSoundComplete h s) = JNum (js_sub h n (Fin 1))
      \<and> position (handleSoundComplete h s) = JNum (Fin 0)
      \<and> trace (handleSoundComplete h s) = trace s @ [DispatchEvent ''loop'']
      \<and> playState (handleSoundComplete h s) = playState s)
   \<and> (exact_on_safe_integers h \<and> loop s = JNum (Fin (of_int z)) \<and> z \<noteq> 0
       \<and> - (2 ^ 53) < z \<and> z \<le> 2 ^ 53 \<longrightarrow>
      loop (handleSoundComplete h s) = JNum (Fin (of_int z - 1)))
   \<and> (loop s = JNum (Fin 0) \<longrightarrow>
      playState (handleSoundComplete h s) = Some PLAY_FINISHED
      \<and> position (handleSoundComplete h s) = JNum (Fin 0)
      \<and> events (trace (handleSoundComplete h s)) = events (trace s) @ [''complete''])
   \<and> (exact_on_safe_integers h \<and> loop s = JNum (Fin 2) \<and> playState s = Some PLAY_SUCCEEDED \<longrightarrow>
      loop (handleSoundComplete h s) = JNum (Fin 1)
      \<and> playState (handleSoundComplete h s) = Some PLAY_SUCCEEDED
      \<and> events (trace (handleSoundComplete h s)) = events (trace s) @ [''loop'']
      \<and> loop ((handleSoundComplete h ^^ 2) s) = JNum (Fin 0)
      \<and> playState ((handleSoundComplete h ^^ 2) s) = Some PLAY_SUCCEEDED
      \<and> events (trace ((handleSoundComplete h ^^ 2) s)) = events (trace s) @ [''loop'', ''loop'']
      \<and> playState ((handleSoundComplete h ^^ 3) s) = Some PLAY_FINISHED
      \<and> events (trace ((handleSoundComplete h ^^ 3) s)) =
          events (trace s) @ [''loop'', ''loop'', ''complete''])
   \<and> (rounds_below_minus_one h \<and> loop s = JNum n \<and> negative_counter n \<longrightarrow>
      (\<forall>m. playState ((handleSoundComplete h ^^ m) s) = playState s
           \<and> events (trace ((handleSoundComplete h ^^ m) s)) =
               events (trace s) @ replicate m ''loop''
           \<and> (\<exists>n'. negative_counter n' \<and> loop ((handleSoundComplete h ^^ m) s) = JNum n')))
   \<and> (exact_on_safe_integers h \<and> loop s = JNum (Fin (of_int z)) \<and> z < 0 \<longrightarrow>
      (\<forall>m. - (2 ^ 53) \<le> z - int m \<longrightarrow>
           loop ((handleSoundComplete h ^^ m) s) = JNum (Fin (of_int z - real m))))"
proof (intro conjI impI allI)
  assume a: "loop s = JNum n \<and> \<not> num_eq n (Fin 0)"
  then have eq: "handleSoundComplete h s =
     s\<lparr>position := JNum (Fin 0), loop := JNum (js_sub h n (Fin 1)),
       trace := trace s @ [DispatchEvent ''loop'']\<rparr>"
    by (simp add: handleSoundComplete_nonzero)
  show "loop (handleSoundComplete h s) = JNum (js_sub h n (Fin 1))" by (simp add: eq)
  show "position (handleSoundComplete h s) = JNum (Fin 0)" by (simp add: eq)
  show "trace (handleSoundComplete h s) = trace s @ [DispatchEvent ''loop'']" by (simp add: eq)
  show "playState (handleSoundComplete h s) = playState s" by (simp add: eq)
next
  assume a: "exact_on_safe_integers h \<and> loop s = JNum (Fin (of_int z)) \<and> z \<noteq> 0
       \<and> - (2 ^ 53) < z \<and> z \<le> 2 ^ 53"
  then have nz: "\<not> num_eq (Fin (of_int z)) (Fin 0)" by (simp add: num_eq_zero)
  have dec: "js_sub h (Fin (of_int z)) (Fin 1) = Fin (of_int z - 1)"
    using a by (intro js_sub_safe_integer) simp_all
  show "loop (handleSoundComplete h s) = JNum (Fin (of_int z - 1))"
    using a handleSoundComplete_nonzero [OF _ nz, of s h] by (simp add: dec)
next
  assume z: "loop s = JNum (Fin 0)"
  note eq = handleSoundComplete_zero [OF z, of h]
  show "playState (handleSoundComplete h s) = Some PLAY_FINISHED" by (simp add: eq)
  show "position (handleSoundComplete h s) = JNum (Fin 0)" by (simp add: eq)
  show "events (trace (handleSoundComplete h s)) = events (trace s) @ [''complete'']"
    by (simp add: eq events_append)
next
  assume two: "exact_on_safe_integers h \<and> loop s = JNum (Fin 2)
      \<and> playState s = Some PLAY_SUCCEEDED"
  have d2: "js_sub h (Fin 2) (Fin 1) = Fin 1"
    using two js_sub_safe_integer [of h 2] by simp
  have d1: "js_sub h (Fin 1) (Fin 1) = Fin 0" by (simp add: js_sub_def)
  have e1: "handleSoundComplete h s =
     s\<lparr>position := JNum (Fin 0), loop := JNum (Fin 1),
       trace := trace s @ [DispatchEvent ''loop'']\<rparr>"
    using two handleSoundComplete_nonzero [of s "Fin 2" h] by (simp add: num_eq_zero d2)
  let ?s1 = "s\<lparr>position := JNum (Fin 0), loop := JNum (Fin 1),
       trace := trace s @ [DispatchEvent ''loop'']\<rparr>"
  let ?s2 = "s\<lparr>position := JNum (Fin 0), loop := JNum (Fin 0),
       trace := trace s @ [DispatchEvent ''loop'', DispatchEvent ''loop'']\<rparr>"
  have s1s2: "handleSoundComplete h ?s1 = ?s2"
    using handleSoundComplete_nonzero [of ?s1 "Fin 1" h] by (simp add: num_eq_zero d1)
  have s2s3: "handleSoundComplete h ?s2 =
     s\<lparr>position := JNum (Fin 0), loop := JNum (Fin 0), playState := Some PLAY_FINISHED,
       trace := trace s @ [DispatchEvent ''loop'', DispatchEvent ''loop'',
                           ClearTimeout (delayTimeoutId s), PlayFinished,
                           DispatchEvent ''complete'']\<rparr>"
    using handleSoundComplete_zero [of ?s2 h] by simp
  have e2: "(handleSoundComplete h ^^ 2) s = ?s2"
    by (simp add: numeral_2_eq_2 e1 s1s2)
  have e3: "(handleSoundComplete h ^^ 3) s =
     s\<lparr>position := JNum (Fin 0), loop := JNum (Fin 0), playState := Some PLAY_FINISHED,
       trace := trace s @ [DispatchEvent ''loop'', DispatchEvent ''loop'',
                           ClearTimeout (delayTimeoutId s), PlayFinished,
                           DispatchEvent ''complete'']\<rparr>"
    by (simp add: numeral_3_eq_3 e1 s1s2 s2s3)
  show "loop (handleSoundComplete h s) = JNum (Fin 1)" by (simp add: e1)
  show "playState (handleSoundComplete h s) = Some PLAY_SUCCEEDED" using two by (simp add: e1)
  show "events (trace (handleSoundComplete h s)) = events (trace s) @ [''loop'']"
    by (simp add: e1 events_append)
  show "loop ((handleSoundComplete h ^^ 2) s) = JNum (Fin 0)" by (simp add: e2)
  show "playState ((handleSoundComplete h ^^ 2) s) = Some PLAY_SUCCEEDED"
    using two by (simp add: e2)
  show "events (trace ((handleSoundComplete h ^^ 2) s)) = events (trace s) @ [''loop'', ''loop'']"
    by (simp add: e2 events_append)
  show "playState ((handleSoundComplete h ^^ 3) s) = Some PLAY_FINISHED" by (simp add: e3)
  show "events (trace ((handleSoundComplete h ^^ 3) s)) =
          events (trace s) @ [''loop'', ''loop'', ''complete'']"
    by (simp add: e3 events_append)
next
  fix m
  assume neg: "rounds_below_minus_one h \<and> loop s = JNum n \<and> negative_counter n"
  then obtain n' where n': "negative_counter n'"
    and eq: "(handleSoundComplete h ^^ m) s =
               s\<lparr>position := (if m = 0 then position s else JNum (Fin 0)), loop := JNum n',
                 trace := trace s @ replicate m (DispatchEvent ''loop'')\<rparr>"
    using handleSoundComplete_negative [where h = h and n = n and s = s and m = m] by blast
  show "playState ((handleSoundComplete h ^^ m) s) = playState s" by (simp add: eq)
  show "events (trace ((handleSoundComplete h ^^ m) s)) = events (trace s) @ replicate m ''loop''"
    by (simp add: eq events_append events_replicate)
  show "\<exists>n'. negative_counter n' \<and> loop ((handleSoundComplete h ^^ m) s) = JNum n'"
    using n' by (auto simp: eq)
next
  fix m
  assume neg: "exact_on_safe_integers h \<and> loop s = JNum (Fin (of_int z)) \<and> z < 0"
    and range: "- (2 ^ 53) \<le> z - int m"
  show "loop ((handleSoundComplete h ^^ m) s) = JNum (Fin (of_int z - real m))"
    using handleSoundComplete_negative_integer
      [where h = h and z = z and s = s and m = m] neg range
    by simp
qed

theorem handleSoundComplete_loop_countdown_witness:
  "events (trace ((handleSoundComplete (test_host True) ^^ 3) (playing\<lparr>loop := JNum (Fin 2)\<rparr>))) =
     [''loop'', ''loop'', ''complete'']
   \<and> playState ((handleSoundComplete (test_host True) ^^ 3) (playing\<lparr>loop := JNum (Fin 2)\<rparr>)) =
     Some PLAY_FINISHED
   \<and> loop (handleSoundComplete (test_host True) (playing\<lparr>loop := JNum (Fin 2)\<rparr>)) = JNum (Fin 1)
   \<and> playState (handleSoundComplete (test_host True) (playing\<lparr>loop := JNum (Fin 0)\<rparr>)) =
     Some PLAY_FINISHED
   \<and> events (trace ((handleSoundComplete (test_host True) ^^ 5)
        (playing\<lparr>loop := JNum (Fin (- 1))\<rparr>))) = replicate 5 ''loop''
   \<and> playState ((handleSoundComplete (test_host True) ^^ 5)
        (playing\<lparr>loop := JNum (Fin (- 1))\<rparr>)) = Some PLAY_SUCCEEDED
   \<and> loop ((handleSoundComplete (test_host True) ^^ 5)
        (playing\<lparr>loop := JNum (Fin (- 1))\<rparr>)) = JNum (Fin (- 6))"
proof -
  have exact: "exact_on_safe_integers (test_host True)"
    by (simp add: exact_on_safe_integers_def test_host_def)
  have below: "rounds_below_minus_one (test_host True)"
    by (simp add: rounds_below_minus_one_def test_host_def)
  have negative: "negative_counter (Fin (- 1))" by (simp add: negative_counter_def)
  have two: "loop (playing\<lparr>loop := JNum (Fin 2)\<rparr>) = JNum (Fin 2)
      \<and> playState (playing\<lparr>loop := JNum (Fin 2)\<rparr>) = Some PLAY_SUCCEEDED
      \<and> trace (playing\<lparr>loop := JNum (Fin 2)\<rparr>) = []"
    by (simp add: playing_def fresh_def AbstractSoundInstance_def)
  have zero: "loop (playing\<lparr>loop := JNum (Fin 0)\<rparr>) = JNum (Fin 0)" by simp
  have neg: "loop (playing\<lparr>loop := JNum (Fin (- 1))\<rparr>) = JNum (Fin (of_int (- 1)))
      \<and> playState (playing\<lparr>loop := JNum (Fin (- 1))\<rparr>) = Some PLAY_SUCCEEDED
      \<and> trace (playing\<lparr>loop := JNum (Fin (- 1))\<rparr>) = []"
    by (simp add: playing_def fresh_def AbstractSoundInstance_def)
  show ?thesis
    using exact below negative two zero neg
      handleSoundComplete_loop_countdown [where s = "playing\<lparr>loop := JNum (Fin 2)\<rparr>"
        and n = "Fin 2" and z = 2 and h = "test_host True"]
      handleSoundComplete_loop_countdown [where s = "playing\<lparr>loop := JNum (Fin 0)\<rparr>"
        and n = "Fin 0" and z = 0 and h = "test_host True"]
      handleSoundComplete_loop_countdown [where s = "playing\<lparr>loop := JNum (Fin (- 1))\<rparr>"
        and n = "Fin (- 1)" and z = "- 1" and h = "test_host True"]
    by simp
qed

subsection \<open>Stopping\<close>

text \<open>
  C5. From any state, \<open>stop()\<close> stores position 0, clears the paused flag, calls
  \<open>clearTimeout\<close> on the pending delay handle and leaves the play state FINISHED; a
  \<open>getPosition()\<close> right after it returns 0 without asking the back-end for a live
  position, and the state is still FINISHED.
\<close>

theorem stop_resets_session:
  "position (snd (stop s)) = JNum (Fin 0)
   \<and> paused (snd (stop s)) = JBool False
   \<and> playState (snd (stop s)) = Some PLAY_FINISHED
   \<and> trace (snd (stop s)) =
       trace s @ [Hook HandleStop, ClearTimeout (delayTimeoutId s), PlayFinished]
   \<and> getPosition (snd (stop s)) = (RetVal (JNum (Fin 0)), snd (stop s))
   \<and> playState (snd (getPosition (snd (stop s)))) = Some PLAY_FINISHED"
  by (simp add: stop_def getPosition_def cleanUp_def emit_def Let_def)

subsection \<open>Playing an instance that already plays\<close>










subsection \<open>The paused flag of a reachable instance\<close>


















subsection \<open>Volume and pan\<close>

text \<open>
  C7, as the code has it. Whenever the value written converts to a number other than NaN,
  \<open>setVolume\<close> and the \<open>volume\<close> accessor store a volume between 0 and 1, and
  \<open>setPan\<close> and the \<open>pan\<close> accessor store a pan between -1 and 1: a finite value \<open>x\<close>
  is stored as \<open>max lo (min hi x)\<close>, positive infinity as the upper bound and negative
  infinity as the lower bound. When the value converts to NaN, NaN is what is stored.
\<close>

theorem volume_pan_clamped:
  "(to_number h v \<noteq> NaN \<longrightarrow>
      in_range 0 1 (volume (snd (setVolume h v s)))
      \<and> in_range 0 1 (volume (volume_set h v s))
      \<and> in_range (- 1) 1 (pan (snd (setPan h v s)))
      \<and> in_range (- 1) 1 (pan (pan_set h v s)))
   \<and> (to_number h v = Fin x \<longrightarrow>
      volume (snd (setVolume h v s)) = Fin (max 0 (min 1 x))
      \<and> volume (volume_set h v s) = Fin (max 0 (min 1 x))
      \<and> pan (snd (setPan h v s)) = Fin (max (- 1) (min 1 x))
      \<and> pan (pan_set h v s) = Fin (max (- 1) (min 1 x)))
   \<and> (to_number h v = PosInf \<longrightarrow>
      volume (snd (setVolume h v s)) = Fin 1 \<and> volume (volume_set h v s) = Fin 1
      \<and> pan (snd (setPan h v s)) = Fin 1 \<and> pan (pan_set h v s) = Fin 1)
   \<and> (to_number h v = NegInf \<longrightarrow>
      volume (snd (setVolume h v s)) = Fin 0 \<and> volume (volume_set h v s) = Fin 0
      \<and> pan (snd (setPan h v s)) = Fin (- 1) \<and> pan (pan_set h v s) = Fin (- 1))
   \<and> (to_number h v = NaN \<longrightarrow>
      volume (snd (setVolume h v s)) = NaN \<and> volume (volume_set h v s) = NaN
      \<and> pan (snd (setPan h v s)) = NaN \<and> pan (pan_set h v s) = NaN)"
proof (intro conjI impI)
  assume n: "to_number h v \<noteq> NaN"
  show "in_range 0 1 (volume (snd (setVolume h v s)))"
    using n by (simp add: volume_setVolume clamp_js_in_range)
  show "in_range 0 1 (volume (volume_set h v s))"
    using n by (simp add: volume_volume_set clamp_js_in_range)
  show "in_range (- 1) 1 (pan (snd (setPan h v s)))"
    using n by (simp add: pan_setPan clamp_js_in_range)
  show "in_range (- 1) 1 (pan (pan_set h v s))"
    using n by (simp add: pan_pan_set clamp_js_in_range)
next
  assume f: "to_number h v = Fin x"
  show "volume (snd (setVolume h v s)) = Fin (max 0 (min 1 x))"
    using clamp_js_Fin [OF _ f, of 0 1] by (simp add: volume_setVolume)
  show "volume (volume_set h v s) = Fin (max 0 (min 1 x))"
    using clamp_js_Fin [OF _ f, of 0 1] by (simp add: volume_volume_set)
  show "pan (snd (setPan h v s)) = Fin (max (- 1) (min 1 x))"
    using clamp_js_Fin [OF _ f, of "- 1" 1] by (simp add: pan_setPan)
  show "pan (pan_set h v s) = Fin (max (- 1) (min 1 x))"
    using clamp_js_Fin [OF _ f, of "- 1" 1] by (simp add: pan_pan_set)
next
  assume p: "to_number h v = PosInf"
  show "volume (snd (setVolume h v s)) = Fin 1"
    using clamp_js_PosInf [OF _ p, of 0 1] by (simp add: volume_setVolume)
  show "volume (volume_set h v s) = Fin 1"
    using clamp_js_PosInf [OF _ p, of 0 1] by (simp add: volume_volume_set)
  show "pan (snd (setPan h v s)) = Fin 1"
    using clamp_js_PosInf [OF _ p, of "- 1" 1] by (simp add: pan_setPan)
  show "pan (pan_set h v s) = Fin 1"
    using clamp_js_PosInf [OF _ p, of "- 1" 1] by (simp add: pan_pan_set)
next
  assume m: "to_number h v = NegInf"
  show "volume (snd (setVolume h v s)) = Fin 0"
    using clamp_js_NegInf [OF _ m, of 0 1] by (simp add: volume_setVolume)
  show "volume (volume_set h v s) = Fin 0"
    using clamp_js_NegInf [OF _ m, of 0 1] by (simp add: volume_volume_set)
  show "pan (snd (setPan h v s)) = Fin (- 1)"
    using clamp_js_NegInf [OF _ m, of "- 1" 1] by (simp add: pan_setPan)
  show "pan (pan_set h v s) = Fin (- 1)"
    using clamp_js_NegInf [OF _ m, of "- 1" 1] by (simp add: pan_pan_set)
next
  assume nan: "to_number h v = NaN"
  show "volume (snd (setVolume h v s)) = NaN"
    using nan by (simp add: volume_setVolume clamp_js_NaN)
  show "volume (volume_set h v s) = NaN"
    using nan by (simp add: volume_volume_set clamp_js_NaN)
  show "pan (snd (setPan h v s)) = NaN"
    using nan by (simp add: pan_setPan clamp_js_NaN)
  show "pan (pan_set h v s) = NaN"
    using nan by (simp add: pan_pan_set clamp_js_NaN)
qed

theorem volume_pan_clamped_witness:
  "volume (snd (setVolume (test_host True) (JNum (Fin 3)) fresh)) = Fin 1
   \<and> in_range 0 1 (volume (snd (setVolume (test_host True) (JNum (Fin 3)) fresh)))
   \<and> pan (snd (setPan (test_host True) (JNum (Fin (- 3))) fresh)) = Fin (- 1)
   \<and> in_range (- 1) 1 (pan (snd (setPan (test_host True) (JNum (Fin (- 3))) fresh)))
   \<and> volume (volume_set (test_host True) (JNum (Fin (1 / 4))) fresh) = Fin (1 / 4)
   \<and> volume (snd (setVolume (test_host True) (JNum PosInf) fresh)) = Fin 1
   \<and> pan (pan_set (test_host True) (JNum NegInf) fresh) = Fin (- 1)
   \<and> volume (snd (setVolume (test_host True) JUndefined fresh)) = NaN"
  using volume_pan_clamped [where h = "test_host True" and v = "JNum (Fin 3)" and x = "3" and s = fresh]
    volume_pan_clamped [where h = "test_host True" and v = "JNum (Fin (- 3))" and x = "- 3" and s = fresh]
    volume_pan_clamped [where h = "test_host True" and v = "JNum (Fin (1 / 4))" and x = "1 / 4" and s = fresh]
    volume_pan_clamped [where h = "test_host True" and v = "JNum PosInf" and x = "0" and s = fresh]
    volume_pan_clamped [where h = "test_host True" and v = "JNum NegInf" and x = "0" and s = fresh]
    volume_pan_clamped [where h = "test_host True" and v = "JUndefined" and x = "0" and s = fresh]
  by (simp add: in_range_def)

text \<open>
  C7 as stated fails: \<open>setVolume(NaN)\<close> and \<open>setVolume(undefined)\<close> store NaN, which is
  not a volume between 0 and 1, and \<open>setPan(undefined)\<close> stores NaN as the pan.
\<close>

theorem setVolume_NaN_counterexample:
  "\<not> in_range 0 1 (volume (snd (setVolume (test_host True) (JNum NaN) fresh)))
   \<and> \<not> in_range 0 1 (volume (snd (setVolume (test_host True) JUndefined fresh)))
   \<and> \<not> in_range 0 1 (volume (volume_set (test_host True) JUndefined fresh))
   \<and> \<not> in_range (- 1) 1 (pan (snd (setPan (test_host True) JUndefined fresh)))
   \<and> volume (snd (setVolume (test_host True) (JNum NaN) fresh)) = NaN"
  by (simp add: setVolume_def volume_set_def setPan_def Let_def emit_def clamp_js_def
      math_max_def math_min_def in_range_def)

subsection \<open>Boolean setters\<close>

text \<open>
  C8, as the code has it. A value that is not a boolean changes nothing when it reaches
  \<open>setMuted\<close>, \<open>setPaused\<close> or the \<open>muted\<close> and \<open>paused\<close> accessors: the state is the
  one before, so the stored flag is retained and no event is dispatched. The deprecated
  \<open>setMute\<close> ignores only null and undefined, answering false; any other value is stored
  as it is, the volume hook runs, and still no event is dispatched.
\<close>

theorem malformed_boolean_input:
  "(\<not> is_boolean v \<longrightarrow>
      setMuted v s = (RetUndefined, s)
      \<and> muted_set v s = s
      \<and> setPaused h v s = (RetUndefined, s)
      \<and> paused_set h v s = s)
   \<and> (\<not> is_boolean v \<and> is_nullish v \<longrightarrow> setMute v s = (RetBool False, s))
   \<and> (\<not> is_boolean v \<and> \<not> is_nullish v \<longrightarrow>
      fst (setMute v s) = RetBool True
      \<and> muted (snd (setMute v s)) = v
      \<and> trace (snd (setMute v s)) = trace s @ [Hook UpdateVolume]
      \<and> events (trace (snd (setMute v s))) = events (trace s))
   \<and> (\<not> is_nullish v \<longrightarrow> muted (snd (setMute v s)) = v)"
  by (simp add: setMuted_ignores muted_set_ignores setPaused_ignores paused_set_ignores
      setMute_def emit_def events_append)

theorem malformed_boolean_input_witness:
  "setMuted (JStr ''yes'') playing = (RetUndefined, playing)
   \<and> muted_set (JNum (Fin 1)) playing = playing
   \<and> setPaused (test_host True) (JNum (Fin 1)) playing = (RetUndefined, playing)
   \<and> paused_set (test_host True) JNull playing = playing
   \<and> setMute JUndefined playing = (RetBool False, playing)
   \<and> muted (snd (setMute (JNum (Fin 5)) playing)) = JNum (Fin 5)"
  using malformed_boolean_input [where v = "JStr ''yes''" and s = playing and h = "test_host True"]
    malformed_boolean_input [where v = "JNum (Fin 1)" and s = playing and h = "test_host True"]
    malformed_boolean_input [where v = "JNull" and s = playing and h = "test_host True"]
    malformed_boolean_input [where v = "JUndefined" and s = playing and h = "test_host True"]
    malformed_boolean_input [where v = "JNum (Fin 5)" and s = playing and h = "test_host True"]
  by (simp add: is_nullish_def)

text \<open>
  C8 as stated fails for \<open>setMute\<close>: \<open>setMute(5)\<close> answers true and replaces the stored
  flag \<open>false\<close> by the number 5.
\<close>

theorem setMute_stores_non_boolean:
  "muted fresh = JBool False
   \<and> setMute (JNum (Fin 5)) fresh =
       (RetBool True, fresh\<lparr>muted := JNum (Fin 5), trace := [Hook UpdateVolume]\<rparr>)
   \<and> muted (snd (setMute (JNum (Fin 5)) fresh)) \<noteq> muted fresh"
  by (simp add: setMute_def is_nullish_def emit_def fresh_def AbstractSoundInstance_def)

subsection \<open>Position and duration\<close>

text \<open>
  C10. A falsy value (undefined, null, NaN, 0, the empty string, false) written through
  \<open>setPosition\<close>, \<open>setDuration\<close> or the \<open>position\<close> and \<open>duration\<close> accessors is stored
  as the number 0; and whatever value is written, what these four store is never NaN,
  null or undefined.
\<close>

theorem falsy_position_duration:
  "(\<not> to_boolean v \<longrightarrow>
      position (snd (setPosition v s)) = JNum (Fin 0)
      \<and> duration (snd (setDuration v s)) = JNum (Fin 0)
      \<and> position (position_set v s) = JNum (Fin 0)
      \<and> duration (duration_set v s) = JNum (Fin 0))
   \<and> position (snd (setPosition v s)) \<noteq> JNum NaN
   \<and> position (snd (setPosition v s)) \<noteq> JNull
   \<and> position (snd (setPosition v s)) \<noteq> JUndefined
   \<and> duration (snd (setDuration v s)) \<noteq> JNum NaN
   \<and> duration (snd (setDuration v s)) \<noteq> JNull
   \<and> duration (snd (setDuration v s)) \<noteq> JUndefined
   \<and> position (position_set v s) \<noteq> JNum NaN
   \<and> position (position_set v s) \<noteq> JNull
   \<and> position (position_set v s) \<noteq> JUndefined
   \<and> duration (duration_set v s) \<noteq> JNum NaN
   \<and> duration (duration_set v s) \<noteq> JNull
   \<and> duration (duration_set v s) \<noteq> JUndefined"
  using js_or_zero_defined [of v]
  by (simp add: setPosition_def setDuration_def position_set_def duration_set_def emit_def
      js_or_falsy)

theorem falsy_position_duration_witness:
  "position (snd (setPosition JUndefined playing)) = JNum (Fin 0)
   \<and> position (snd (setPosition JNull playing)) = JNum (Fin 0)
   \<and> position (snd (setPosition (JNum NaN) playing)) = JNum (Fin 0)
   \<and> position (snd (setPosition (JNum (Fin 0)) playing)) = JNum (Fin 0)
   \<and> position (snd (setPosition (JStr []) playing)) = JNum (Fin 0)
   \<and> position (snd (setPosition (JBool False) playing)) = JNum (Fin 0)
   \<and> duration (snd (setDuration JUndefined playing)) = JNum (Fin 0)
   \<and> duration (snd (setDuration (JNum NaN) playing)) = JNum (Fin 0)
   \<and> position (position_set JNull playing) = JNum (Fin 0)
   \<and> duration (duration_set (JStr []) playing) = JNum (Fin 0)"
  using falsy_position_duration [where v = "JUndefined" and s = playing]
    falsy_position_duration [where v = "JNull" and s = playing]
    falsy_position_duration [where v = "JNum NaN" and s = playing]
    falsy_position_duration [where v = "JNum (Fin 0)" and s = playing]
    falsy_position_duration [where v = "JStr []" and s = playing]
    falsy_position_duration [where v = "JBool False" and s = playing]
  by simp

section \<open>Properties of the Flash loader\<close>

subsection \<open>Loads before the engine is there\<close>

lemma load_queues:
  "flash w = None \<Longrightarrow>
   load f l source w =
     Inr (w\<lparr>calls := calls w @ [SuperLoad l source],
            preloadInstances := preloadInstances w @ [l]\<rparr>)"
  by (simp add: load_def Let_def)

text \<open>
  While the engine is missing every load is appended to the queue, so the queue holds
  the loaders in the order of their \<open>load\<close> calls, and the engine is not called.
\<close>

lemma loads_queue_in_order:
  "flash w = None \<Longrightarrow>
   loads f reqs w =
     Inr (w\<lparr>calls := calls w @ map (\<lambda>(l, source). SuperLoad l source) reqs,
            preloadInstances := preloadInstances w @ map fst reqs\<rparr>)"
proof (induction reqs arbitrary: w)
  case Nil
  then show ?case by simp
next
  case (Cons r reqs)
  obtain l source where r: "r = (l, source)" by (cases r)
  let ?w1 = "w\<lparr>calls := calls w @ [SuperLoad l source],
                preloadInstances := preloadInstances w @ [l]\<rparr>"
  have "flash ?w1 = None" using Cons.prems by simp
  from Cons.IH [OF this] Cons.prems show ?case
    by (simp add: r load_queues)
qed

text \<open>
  The counter of the loop is 0 or NaN at its first test, so the body never runs:
  \<open>setFlash\<close> returns having stored the engine, and nothing else.
\<close>

lemma setFlash_loop_falsy:
  "\<not> to_boolean (JNum i) \<Longrightarrow> setFlash_loop h f i w = Some (Inr w)"
  by (subst setFlash_loop.simps) auto

lemma setFlash_replays_nothing: "setFlash h f fl w = Some (Inr (w\<lparr>flash := fl\<rparr>))"
  by (simp add: setFlash_def array_to_number_def setFlash_loop_falsy)

text \<open>
  C2. Two loaders call \<open>load\<close> before the engine is there and are queued in that order.
  \<open>setFlash\<close> then stores the engine and returns: both loaders are still in the queue,
  and the calls made are the two inherited loads only, with no \<open>preload\<close> on the engine.
\<close>

theorem setFlash_queue_run:
  "load (\<lambda>l. Some 9) 10 (JStr ''a.mp3'') no_flash =
     Inr \<lparr> flash = None, preloadInstances = [10],
           calls = [SuperLoad 10 (JStr ''a.mp3'')] \<rparr>
   \<and> load (\<lambda>l. Some 9) 20 (JStr ''b.mp3'')
       \<lparr> flash = None, preloadInstances = [10], calls = [SuperLoad 10 (JStr ''a.mp3'')] \<rparr> =
     Inr \<lparr> flash = None, preloadInstances = [10, 20],
           calls = [SuperLoad 10 (JStr ''a.mp3''), SuperLoad 20 (JStr ''b.mp3'')] \<rparr>
   \<and> setFlash (test_host True) (\<lambda>l. Some 9) (Some 9)
       \<lparr> flash = None, preloadInstances = [10, 20],
         calls = [SuperLoad 10 (JStr ''a.mp3''), SuperLoad 20 (JStr ''b.mp3'')] \<rparr> =
     Some (Inr \<lparr> flash = Some 9, preloadInstances = [10, 20],
                 calls = [SuperLoad 10 (JStr ''a.mp3''), SuperLoad 20 (JStr ''b.mp3'')] \<rparr>)"
proof -
  have stop: "setFlash_loop (test_host True) (\<lambda>l. Some 9) NaN
       \<lparr> flash = Some 9, preloadInstances = [10, 20],
         calls = [SuperLoad 10 (JStr ''a.mp3''), SuperLoad 20 (JStr ''b.mp3'')] \<rparr> =
     Some (Inr \<lparr> flash = Some 9, preloadInstances = [10, 20],
                 calls = [SuperLoad 10 (JStr ''a.mp3''), SuperLoad 20 (JStr ''b.mp3'')] \<rparr>)"
    by (subst setFlash_loop.simps) simp
  show ?thesis
    by (simp add: load_def no_flash_def Let_def setFlash_def array_to_number_def stop)
qed

subsection \<open>Progress\<close>





end
